theory Spec2Isabelle
  imports Complex_Main
begin

section \<open>Values: float64 entries of a Series\<close>

text \<open>
  The program computes on pandas Series and numpy arrays of float64. An entry is \<open>NaN\<close>
  (pandas' marker for a missing or undefined entry), an infinity, the negative zero
  \<open>NZero\<close>, or a number \<open>Fin a\<close>; \<open>Fin 0\<close> is the positive zero. The special cases of
  every operation follow IEEE 754, which numpy and pandas apply without raising (a division
  by zero is a warning, not an exception): the sign of a zero, the infinities of a division
  by zero, \<open>NaN\<close> for \<open>0 / 0\<close>, \<open>inf - inf\<close> and \<open>0 * inf\<close>. The result of an
  operation on two numbers is given without its rounding to 53 bits.
\<close>

datatype fl = NaN | NInf | PInf | NZero | Fin real

datatype error = TypeError | ValueError | OverflowError | LinAlgError

definition is_inf :: "fl \<Rightarrow> bool" where
  "is_inf x = (x = PInf \<or> x = NInf)"

definition is_zero :: "fl \<Rightarrow> bool" where
  "is_zero x = (x = NZero \<or> x = Fin 0)"

fun is_fin :: "fl \<Rightarrow> bool" where
  "is_fin (Fin a) = True"
| "is_fin NZero = True"
| "is_fin x = False"

fun fval :: "fl \<Rightarrow> real" where
  "fval (Fin a) = a"
| "fval x = 0"

fun sign_bit :: "fl \<Rightarrow> bool" where
  "sign_bit (Fin a) = (a < 0)"
| "sign_bit NZero = True"
| "sign_bit NInf = True"
| "sign_bit x = False"

definition inf_s :: "bool \<Rightarrow> fl" where
  "inf_s s = (if s then NInf else PInf)"

definition zero_s :: "bool \<Rightarrow> fl" where
  "zero_s s = (if s then NZero else Fin 0)"

definition fin_s :: "bool \<Rightarrow> real \<Rightarrow> fl" where
  "fin_s s a = (if a = 0 then zero_s s else Fin a)"

fun fneg :: "fl \<Rightarrow> fl" where
  "fneg NaN = NaN"
| "fneg NInf = PInf"
| "fneg PInf = NInf"
| "fneg NZero = Fin 0"
| "fneg (Fin a) = (if a = 0 then NZero else Fin (- a))"

definition fadd :: "fl \<Rightarrow> fl \<Rightarrow> fl" where
  "fadd x y =
     (if x = NaN \<or> y = NaN then NaN
      else if is_inf x then (if is_inf y \<and> x \<noteq> y then NaN else x)
      else if is_inf y then y
      else if fval x + fval y = 0 then zero_s (sign_bit x \<and> sign_bit y)
      else Fin (fval x + fval y))"

definition fsub :: "fl \<Rightarrow> fl \<Rightarrow> fl" where
  "fsub x y = fadd x (fneg y)"

definition fmul :: "fl \<Rightarrow> fl \<Rightarrow> fl" where
  "fmul x y =
     (if x = NaN \<or> y = NaN then NaN
      else if is_inf x \<or> is_inf y
        then (if is_zero x \<or> is_zero y then NaN else inf_s (sign_bit x \<noteq> sign_bit y))
      else fin_s (sign_bit x \<noteq> sign_bit y) (fval x * fval y))"

definition fdiv :: "fl \<Rightarrow> fl \<Rightarrow> fl" where
  "fdiv x y =
     (if x = NaN \<or> y = NaN then NaN
      else if is_inf x then (if is_inf y then NaN else inf_s (sign_bit x \<noteq> sign_bit y))
      else if is_inf y then zero_s (sign_bit x \<noteq> sign_bit y)
      else if is_zero y
        then (if is_zero x then NaN else inf_s (sign_bit x \<noteq> sign_bit y))
      else fin_s (sign_bit x \<noteq> sign_bit y) (fval x / fval y))"

text \<open>
  Comparison: every comparison with \<open>NaN\<close> is false, and the two zeros are equal.
\<close>

definition flt :: "fl \<Rightarrow> fl \<Rightarrow> bool" where
  "flt x y =
     (if x = NaN \<or> y = NaN then False
      else if x = PInf \<or> y = NInf then False
      else if x = NInf \<or> y = PInf then True
      else fval x < fval y)"

definition fgt :: "fl \<Rightarrow> fl \<Rightarrow> bool" where
  "fgt x y = flt y x"

text \<open>
  A binary operation on two Series. pandas aligns the operands on their index; the Series of
  this program share the index of one frame, so an index label is a position in the list. A
  position present in one operand only yields the default.
\<close>

fun series_op :: "(fl \<Rightarrow> fl \<Rightarrow> 'a) \<Rightarrow> 'a \<Rightarrow> fl list \<Rightarrow> fl list \<Rightarrow> 'a list" where
  "series_op f d (x # xs) (y # ys) = f x y # series_op f d xs ys"
| "series_op f d [] ys = map (\<lambda>_. d) ys"
| "series_op f d xs [] = map (\<lambda>_. d) xs"

subsection \<open>Series.shift, Series.diff, Series.dropna, boolean indexing\<close>

definition shift1 :: "fl list \<Rightarrow> fl list" where
  "shift1 s = (if s = [] then [] else NaN # butlast s)"

definition diff :: "fl list \<Rightarrow> fl list" where
  "diff s = series_op fsub NaN s (shift1 s)"

definition dropna :: "fl list \<Rightarrow> fl list" where
  "dropna s = filter (\<lambda>v. v \<noteq> NaN) s"

text \<open>
  \<^verbatim>\<open>s[cond]\<close>: the entries of \<open>s\<close> where the condition holds, each with its index
  label.
\<close>

definition select :: "fl list \<Rightarrow> bool list \<Rightarrow> (nat \<times> fl) list" where
  "select s cond =
     map (\<lambda>(i, v, m). (i, v)) (filter (\<lambda>(i, v, m). m) (zip [0 ..< length s] (zip s cond)))"

subsection \<open>Python built-ins\<close>

text \<open>
  \<^verbatim>\<open>max(a, b)\<close> keeps \<open>a\<close> unless \<open>b > a\<close>. \<^verbatim>\<open>int(v)\<close> truncates towards
  zero and raises ValueError on \<open>NaN\<close> and OverflowError on an infinity.
\<close>

definition py_max :: "fl \<Rightarrow> fl \<Rightarrow> fl" where
  "py_max a b = (if fgt b a then b else a)"

fun py_int :: "fl \<Rightarrow> error + int" where
  "py_int (Fin a) = Inr (if 0 \<le> a then \<lfloor>a\<rfloor> else \<lceil>a\<rceil>)"
| "py_int NZero = Inr 0"
| "py_int NaN = Inl ValueError"
| "py_int PInf = Inl OverflowError"
| "py_int NInf = Inl OverflowError"

section \<open>The numerical library\<close>

text \<open>
  numpy and pandas compute the covariance matrix, the least-squares fit and the rolling
  statistics in float64, in an order of operations that their compiled kernels fix and the
  program does not. These kernels are the parameter \<open>L\<close> of the model: whatever is proved
  holds for every such library. What the library does around its kernels is modelled as it
  is written: the checks that raise, the windows, the entries that are \<open>NaN\<close> before any
  number is computed.

  \<^item> \<open>cov_entries L y x\<close>: the entries \<open>[0, 1]\<close> and \<open>[1, 1]\<close> of \<^verbatim>\<open>np.cov(y, x)\<close>
    for two rows of one length;
  \<^item> \<open>lstsq_slope L x y\<close>: the leading coefficient that the least-squares solver of
    \<^verbatim>\<open>np.polyfit(x, y, 1)\<close> returns, or the error it raises;
  \<^item> \<open>roll_mean L w s i\<close> and \<open>roll_var L w s i\<close>: the mean and the sample variance
    (\<open>ddof = 1\<close>) that the rolling aggregation of window \<open>w\<close> over \<open>s\<close> reports at
    position \<open>i\<close>, when the window there is full and holds numbers only.
\<close>

record lib =
  cov_entries :: "fl list \<Rightarrow> fl list \<Rightarrow> fl \<times> fl"
  lstsq_slope :: "fl list \<Rightarrow> fl list \<Rightarrow> error + fl"
  roll_mean :: "nat \<Rightarrow> fl list \<Rightarrow> nat \<Rightarrow> fl"
  roll_var :: "nat \<Rightarrow> fl list \<Rightarrow> nat \<Rightarrow> fl"

text \<open>
  \<^verbatim>\<open>np.polyfit(x, y, 1)[0]\<close>: numpy raises TypeError for an empty \<open>x\<close> and for
  operands of different lengths before it solves.
\<close>

definition np_polyfit :: "lib \<Rightarrow> fl list \<Rightarrow> fl list \<Rightarrow> error + fl" where
  "np_polyfit L x y =
     (if x = [] then Inl TypeError
      else if length x \<noteq> length y then Inl TypeError
      else lstsq_slope L x y)"

text \<open>
  \<^verbatim>\<open>spread.rolling(window)\<close> aggregates, at position \<open>i\<close>, the \<open>window\<close>
  observations ending at \<open>i\<close>. The minimal number of observations is the window itself, so
  the result is \<open>NaN\<close> while fewer than \<open>window\<close> positions exist and whenever the window
  holds a \<open>NaN\<close>; pandas turns infinite entries into \<open>NaN\<close> before it aggregates. The
  variance is the sample one (\<open>ddof = 1\<close>) and needs more than one observation. The
  standard deviation is \<^verbatim>\<open>zsqrt\<close> of the variance: the square root, with 0 for a
  negative variance.
\<close>

definition window_at :: "nat \<Rightarrow> nat \<Rightarrow> fl list \<Rightarrow> fl list" where
  "window_at w i s = take w (drop (Suc i - w) s)"

definition rolling :: "(nat \<Rightarrow> fl list \<Rightarrow> nat \<Rightarrow> fl) \<Rightarrow> nat \<Rightarrow> fl list \<Rightarrow> fl list" where
  "rolling agg w s =
     map (\<lambda>i. if w = 0 \<or> Suc i < w then NaN
              else if \<not> list_all is_fin (window_at w i s) then NaN
              else agg w s i)
         [0 ..< length s]"

fun zsqrt :: "fl \<Rightarrow> fl" where
  "zsqrt NaN = NaN"
| "zsqrt PInf = PInf"
| "zsqrt NInf = Fin 0"
| "zsqrt NZero = NZero"
| "zsqrt (Fin a) = (if a < 0 then Fin 0 else Fin (sqrt a))"

text \<open>A standard deviation is \<open>NaN\<close>, the infinity, a zero or a positive number.\<close>

definition is_std :: "fl \<Rightarrow> bool" where
  "is_std v = (v = NaN \<or> v = PInf \<or> v = NZero \<or> (\<exists>r. 0 \<le> r \<and> v = Fin r))"

definition rolling_mean :: "lib \<Rightarrow> nat \<Rightarrow> fl list \<Rightarrow> fl list" where
  "rolling_mean L w s = rolling (roll_mean L) w s"

definition rolling_var :: "lib \<Rightarrow> nat \<Rightarrow> fl list \<Rightarrow> fl list" where
  "rolling_var L w s = rolling (\<lambda>w s i. if w \<le> 1 then NaN else roll_var L w s i) w s"

definition rolling_std :: "lib \<Rightarrow> nat \<Rightarrow> fl list \<Rightarrow> fl list" where
  "rolling_std L w s = map zsqrt (rolling_var L w s)"

section \<open>The functions of the program\<close>

text \<open>
  \<^verbatim>\<open>
  cov_matrix = np.cov(y, x)
  hedge_ratio = cov_matrix[0, 1] / cov_matrix[1, 1]
  \<close>
  Rows of different lengths cannot be stacked: \<^verbatim>\<open>np.cov\<close> raises ValueError.
\<close>

definition calculate_hedge_ratio :: "lib \<Rightarrow> fl list \<Rightarrow> fl list \<Rightarrow> error + fl" where
  "calculate_hedge_ratio L y x =
     (if length y \<noteq> length x then Inl ValueError
      else (let cov_matrix = cov_entries L y x
            in Inr (fdiv (fst cov_matrix) (snd cov_matrix))))"

text \<open>\<^verbatim>\<open>return y - hedge_ratio * x\<close>\<close>

definition calculate_spread :: "fl list \<Rightarrow> fl list \<Rightarrow> fl \<Rightarrow> fl list" where
  "calculate_spread y x hedge_ratio = series_op fsub NaN y (map (fmul hedge_ratio) x)"

text \<open>
  \<^verbatim>\<open>
  spread_lag = spread.shift(1).dropna()
  delta_spread = spread.diff().dropna()
  beta = np.polyfit(spread_lag, delta_spread, 1)[0]
  half_life = -np.log(2) / beta
  return max(1, half_life)
  \<close>
\<close>

definition calculate_half_life :: "lib \<Rightarrow> fl list \<Rightarrow> error + fl" where
  "calculate_half_life L spread =
     (let spread_lag = dropna (shift1 spread);
          delta_spread = dropna (diff spread)
      in case np_polyfit L spread_lag delta_spread of
           Inl e \<Rightarrow> Inl e
         | Inr beta \<Rightarrow>
             (let half_life = fdiv (fneg (Fin (ln 2))) beta
              in Inr (py_max (Fin 1) half_life)))"

text \<open>
  \<^verbatim>\<open>
  rolling_std = spread.rolling(window).std()
  upper_threshold = rolling_std * 2
  lower_threshold = -rolling_std * 2
  \<close>
\<close>

definition adaptive_thresholds :: "lib \<Rightarrow> fl list \<Rightarrow> nat \<Rightarrow> fl list \<times> fl list" where
  "adaptive_thresholds L spread window =
     (let rolling_std = rolling_std L window spread;
          upper_threshold = map (\<lambda>v. fmul v (Fin 2)) rolling_std;
          lower_threshold = map (\<lambda>v. fmul (fneg v) (Fin 2)) rolling_std
      in (upper_threshold, lower_threshold))"

text \<open>
  \<^verbatim>\<open>
  rolling_mean = spread.rolling(window).mean()
  rolling_std = spread.rolling(window).std()
  zscore = (spread - rolling_mean) / rolling_std
  \<close>
\<close>

definition calculate_zscore :: "lib \<Rightarrow> fl list \<Rightarrow> nat \<Rightarrow> fl list" where
  "calculate_zscore L spread window =
     (let rolling_mean = rolling_mean L window spread;
          rolling_std = rolling_std L window spread
      in series_op fdiv NaN (series_op fsub NaN spread rolling_mean) rolling_std)"

section \<open>The run of the program\<close>

text \<open>
  The data feed answers a request with bars; a bar is modelled by its date and its closing
  price, the only two fields the program reads. \<^verbatim>\<open>fetch_delayed_data\<close> prints a
  message and returns an empty frame when no bars came back, and the \<open>close\<close> column
  indexed by date otherwise. What the program prints is returned with the result.
\<close>

type_synonym bar = "nat \<times> fl"

definition fetch_delayed_data :: "string \<Rightarrow> bar list \<Rightarrow> string list \<times> bar list" where
  "fetch_delayed_data symbol bars =
     (if bars = [] then ([''No data returned for '' @ symbol], [])
      else ([], bars))"

text \<open>
  \<^verbatim>\<open>pd.concat([y_data, x_data], axis=1).dropna()\<close>: the rows of the dates on which
  both series have a value that is not \<open>NaN\<close>. The feed delivers the bars of a symbol
  in date order, one bar for a date.
\<close>

definition align :: "bar list \<Rightarrow> bar list \<Rightarrow> (nat \<times> fl \<times> fl) list" where
  "align y_data x_data =
     List.map_filter
       (\<lambda>(t, y). case map_of x_data t of
                   None \<Rightarrow> None
                 | Some x \<Rightarrow> if y = NaN \<or> x = NaN then None else Some (t, y, x))
       y_data"

text \<open>
  A run ends in one of three ways: \<open>main\<close> returns early after printing, an exception
  leaves \<open>main\<close> unhandled, or the chart is drawn from the z-score, the spread and the two
  signal series. The second argument of \<open>main\<close> is the exception of the connection attempt,
  if there was one; the last two are the bars the feed returns for the two symbols. The two
  columns of \<open>combined\<close> and every series computed from them share one index, so a series
  is the list of its values and an index label is a position. \<^verbatim>\<open>rolling\<close> raises
  ValueError for a negative window.
\<close>

datatype run =
    Exited "string list"
  | Raised "string list" error
  | Plotted "string list" "fl list" "fl list" "(nat \<times> fl) list" "(nat \<times> fl) list"

definition main :: "lib \<Rightarrow> string option \<Rightarrow> bar list \<Rightarrow> bar list \<Rightarrow> run" where
  "main L connect_error bars1 bars2 =
     (case connect_error of
        Some e \<Rightarrow> Exited [''Failed to connect to IB: '' @ e]
      | None \<Rightarrow>
         (let (out1, y_data) = fetch_delayed_data ''YUM'' bars1;
              (out2, x_data) = fetch_delayed_data ''MDT'' bars2;
              out = out1 @ out2
          in if y_data = [] \<or> x_data = []
             then Exited (out @ [''Failed to fetch data. Exiting.''])
             else
              (let combined = align y_data x_data;
                   asset_y = map (\<lambda>(t, y, x). y) combined;
                   asset_x = map (\<lambda>(t, y, x). x) combined
               in case calculate_hedge_ratio L asset_y asset_x of
                    Inl e \<Rightarrow> Raised out e
                  | Inr hedge_ratio \<Rightarrow>
                     (let spread = calculate_spread asset_y asset_x hedge_ratio
                      in case calculate_half_life L spread of
                           Inl e \<Rightarrow> Raised out e
                         | Inr half_life \<Rightarrow>
                            (case py_int half_life of
                               Inl e \<Rightarrow> Raised out e
                             | Inr window \<Rightarrow>
                                if window < 0 then Raised out ValueError
                                else
                                 (let zscore = calculate_zscore L spread (nat window);
                                      (upper_threshold, lower_threshold) =
                                         adaptive_thresholds L spread 60;
                                      buy_signals =
                                         select zscore (series_op flt False zscore lower_threshold);
                                      sell_signals =
                                         select zscore (series_op fgt False zscore upper_threshold)
                                  in Plotted out zscore spread buy_signals sell_signals))))))"

section \<open>Reference kernels\<close>

text \<open>
  The statistics in exact arithmetic. They stand for the library at the inputs where
  float64 computes them without rounding, and serve to evaluate the program there; no
  theorem about every library rests on them.
\<close>

definition mean :: "real list \<Rightarrow> real" where
  "mean rs = sum_list rs / real (length rs)"

definition sq_dev :: "real list \<Rightarrow> real" where
  "sq_dev rs = (\<Sum>x\<leftarrow>rs. (x - mean rs)\<^sup>2)"

definition co_dev :: "real list \<Rightarrow> real list \<Rightarrow> real" where
  "co_dev rs qs = (\<Sum>(x, y)\<leftarrow>zip rs qs. (x - mean rs) * (y - mean qs))"

definition exact_cov :: "fl list \<Rightarrow> fl list \<Rightarrow> fl \<times> fl" where
  "exact_cov y x =
     (if length x \<le> 1 \<or> \<not> list_all is_fin (y @ x) then (NaN, NaN)
      else (Fin (co_dev (map fval y) (map fval x) / (real (length x) - 1)),
            Fin (sq_dev (map fval x) / (real (length x) - 1))))"

text \<open>
  The least-squares slope \<open>Sxy / Sxx\<close>. For a constant \<open>x\<close> the system has rank one and
  the solver returns the solution of least norm, of slope \<open>mean y / (2 * x\<^sub>0)\<close>; a
  non-finite entry of \<open>x\<close>, or an \<open>x\<close> that is zero throughout, makes the solver raise, and a
  non-finite entry of \<open>y\<close> alone comes back as \<open>NaN\<close>.
\<close>

definition exact_slope :: "fl list \<Rightarrow> fl list \<Rightarrow> error + fl" where
  "exact_slope x y =
     (if \<not> list_all is_fin x then Inl LinAlgError
      else if sq_dev (map fval x) = 0 \<and> fval (hd x) = 0 then Inl LinAlgError
      else if \<not> list_all is_fin y then Inr NaN
      else if sq_dev (map fval x) \<noteq> 0
        then Inr (Fin (co_dev (map fval x) (map fval y) / sq_dev (map fval x)))
      else Inr (Fin (mean (map fval y) / (2 * fval (hd x)))))"

definition exact_mean :: "nat \<Rightarrow> fl list \<Rightarrow> nat \<Rightarrow> fl" where
  "exact_mean w s i = Fin (mean (map fval (window_at w i s)))"

definition exact_var :: "nat \<Rightarrow> fl list \<Rightarrow> nat \<Rightarrow> fl" where
  "exact_var w s i = Fin (sq_dev (map fval (window_at w i s)) / (real w - 1))"

definition exact :: lib where
  "exact = \<lparr>cov_entries = exact_cov, lstsq_slope = exact_slope,
            roll_mean = exact_mean, roll_var = exact_var\<rparr>"


definition flush :: "real \<Rightarrow> real" where
  "flush q = (if \<bar>q\<bar> < 1 / 2 ^ 1075 then 0 else q)"

definition underflow_var :: "nat \<Rightarrow> fl list \<Rightarrow> nat \<Rightarrow> fl" where
  "underflow_var w s i =
     (let rs = map fval (window_at w i s)
      in Fin ((\<Sum>x\<leftarrow>rs. flush ((x - mean rs)\<^sup>2)) / (real w - 1)))"

definition underflowing :: lib where
  "underflowing = exact\<lparr>roll_var := underflow_var\<rparr>"

section \<open>Arithmetic of the special values\<close>

lemma fadd_Fin [simp]: "fadd (Fin a) (Fin b) = Fin (a + b)"
  by (simp add: fadd_def is_inf_def zero_s_def)

lemma fsub_Fin [simp]: "fsub (Fin a) (Fin b) = Fin (a - b)"
  by (simp add: fsub_def fadd_def is_inf_def zero_s_def)

lemma fadd_NaN [simp]: "fadd NaN y = NaN" "fadd x NaN = NaN"
  by (simp_all add: fadd_def)

lemma fsub_NaN [simp]: "fsub NaN y = NaN" "fsub x NaN = NaN"
  by (simp_all add: fsub_def)

lemma fmul_NaN [simp]: "fmul NaN y = NaN" "fmul x NaN = NaN"
  by (simp_all add: fmul_def)

lemma fdiv_NaN [simp]: "fdiv NaN y = NaN" "fdiv x NaN = NaN"
  by (simp_all add: fdiv_def)

lemma fneg_fneg [simp]: "fneg (fneg x) = x"
  by (cases x) simp_all

lemma fmul_Fin: "fmul (Fin a) (Fin b) = fin_s ((a < 0) \<noteq> (b < 0)) (a * b)"
  by (simp add: fmul_def is_inf_def)

lemma fdiv_Fin: "b \<noteq> 0 \<Longrightarrow> fdiv (Fin a) (Fin b) = fin_s ((a < 0) \<noteq> (b < 0)) (a / b)"
  by (simp add: fdiv_def is_inf_def is_zero_def)

lemma fdiv_zero_zero: "is_zero x \<Longrightarrow> is_zero y \<Longrightarrow> fdiv x y = NaN"
  by (auto simp: fdiv_def is_inf_def is_zero_def)

lemma flt_NaN [simp]: "flt NaN y = False" "flt x NaN = False"
  by (simp_all add: flt_def)

lemma fgt_NaN [simp]: "fgt NaN y = False" "fgt x NaN = False"
  by (simp_all add: fgt_def)

section \<open>Series\<close>

lemma length_series_op [simp]:
  "length (series_op f d a b) = max (length a) (length b)"
  by (induction f d a b rule: series_op.induct) simp_all

lemma nth_series_op:
  "i < length a \<Longrightarrow> i < length b \<Longrightarrow> series_op f d a b ! i = f (a ! i) (b ! i)"
proof (induction f d a b arbitrary: i rule: series_op.induct)
  case (1 f d x xs y ys)
  then show ?case by (cases i) simp_all
qed simp_all

lemma series_op_holds:
  "i < length (series_op p False a b) \<Longrightarrow> series_op p False a b ! i \<Longrightarrow>
   i < length a \<and> i < length b \<and> p (a ! i) (b ! i)"
proof (induction a arbitrary: b i)
  case Nil
  then show ?case by simp
next
  case (Cons x xs)
  show ?case
  proof (cases b)
    case Nil
    with Cons.prems show ?thesis by (cases i) simp_all
  next
    case (Cons y ys)
    show ?thesis
    proof (cases i)
      case 0
      with Cons.prems \<open>b = y # ys\<close> show ?thesis by simp
    next
      case (Suc j)
      with Cons.prems \<open>b = y # ys\<close> have "j < length (series_op p False xs ys)"
        "series_op p False xs ys ! j" by simp_all
      from Cons.IH [OF this] show ?thesis by (simp add: Suc \<open>b = y # ys\<close>)
    qed
  qed
qed

lemma set_zip_index:
  "set (zip [0 ..< length s] (zip s c)) = {(n, s ! n, c ! n) | n. n < length s \<and> n < length c}"
proof -
  have "\<exists>i. n = [0 ..< length s] ! i \<and> (s ! n, c ! n) = zip s c ! i \<and> i < length s \<and> i < length c"
    if "n < length s" "n < length c" for n
    using that by (intro exI [of _ n]) simp
  then show ?thesis by (auto simp: set_zip)
qed

lemma in_select:
  "(i, v) \<in> set (select s c) \<longleftrightarrow> i < length s \<and> i < length c \<and> v = s ! i \<and> c ! i"
proof
  assume "(i, v) \<in> set (select s c)"
  then obtain m where "(i, v, m) \<in> set (zip [0 ..< length s] (zip s c))" "m"
    unfolding select_def by auto
  then show "i < length s \<and> i < length c \<and> v = s ! i \<and> c ! i"
    unfolding set_zip_index by simp
next
  assume a: "i < length s \<and> i < length c \<and> v = s ! i \<and> c ! i"
  then have "(i, v, True) \<in> set (zip [0 ..< length s] (zip s c))"
    unfolding set_zip_index by simp
  then have "(i, v, True) \<in> set (filter (\<lambda>(i, v, m). m) (zip [0 ..< length s] (zip s c)))"
    by simp
  then have "(\<lambda>(i, v, m). (i, v)) (i, v, True) \<in> set (select s c)"
    unfolding select_def set_map by (rule imageI)
  then show "(i, v) \<in> set (select s c)" by simp
qed

section \<open>Rolling statistics\<close>

lemma length_rolling [simp]: "length (rolling agg w s) = length s"
  by (simp add: rolling_def)

lemma nth_rolling:
  "i < length s \<Longrightarrow>
   rolling agg w s ! i =
     (if w = 0 \<or> Suc i < w then NaN
      else if \<not> list_all is_fin (window_at w i s) then NaN
      else agg w s i)"
  by (simp add: rolling_def)

lemma length_rolling_mean [simp]: "length (rolling_mean L w s) = length s"
  by (simp add: rolling_mean_def)

lemma length_rolling_std [simp]: "length (rolling_std L w s) = length s"
  by (simp add: rolling_std_def rolling_var_def)

lemma nth_rolling_std:
  "i < length s \<Longrightarrow>
   rolling_std L w s ! i =
     (if w \<le> 1 \<or> Suc i < w then NaN
      else if \<not> list_all is_fin (window_at w i s) then NaN
      else zsqrt (roll_var L w s i))"
  by (auto simp: rolling_std_def rolling_var_def nth_rolling)

lemma nth_rolling_mean:
  "i < length s \<Longrightarrow>
   rolling_mean L w s ! i =
     (if w = 0 \<or> Suc i < w then NaN
      else if \<not> list_all is_fin (window_at w i s) then NaN
      else roll_mean L w s i)"
  by (simp add: rolling_mean_def nth_rolling)

lemma zsqrt_is_std: "is_std (zsqrt v)"
  by (cases v) (simp_all add: is_std_def)

lemma rolling_std_is_std:
  assumes "i < length s"
  shows "is_std (rolling_std L w s ! i)"
  using assms zsqrt_is_std by (simp add: nth_rolling_std) (simp add: is_std_def)

lemma rolling_std_Fin_nonneg:
  assumes "i < length s" and "rolling_std L w s ! i = Fin r"
  shows "0 \<le> r"
  using rolling_std_is_std [OF assms(1), of L w] assms(2) by (simp add: is_std_def)

section \<open>Adaptive thresholds\<close>

lemma length_thresholds [simp]:
  "length (fst (adaptive_thresholds L spread w)) = length spread"
  "length (snd (adaptive_thresholds L spread w)) = length spread"
  by (simp_all add: adaptive_thresholds_def Let_def)

lemma nth_thresholds:
  assumes "i < length spread"
  shows "fst (adaptive_thresholds L spread w) ! i = fmul (rolling_std L w spread ! i) (Fin 2)"
    and "snd (adaptive_thresholds L spread w) ! i
         = fmul (fneg (rolling_std L w spread ! i)) (Fin 2)"
  using assms by (simp_all add: adaptive_thresholds_def Let_def)

lemma double_nonneg: "0 \<le> r \<Longrightarrow> fmul (Fin r) (Fin 2) = Fin (2 * r)"
  by (simp add: fmul_Fin fin_s_def zero_s_def)

lemma double_neg: "0 \<le> r \<Longrightarrow> fmul (fneg (Fin r)) (Fin 2) = fneg (Fin (2 * r))"
  by (simp add: fmul_def fin_s_def zero_s_def is_inf_def)

text \<open>
  Claim C7. At every index \<open>i\<close> at which the trailing-60 sample standard deviation of the
  spread is defined, with value \<open>r\<close>, the upper threshold is \<open>2 * r\<close>, the lower
  threshold is its negation \<open>- (2 * r)\<close>, and the upper threshold is the negation of the
  lower one. This holds for every library.
\<close>

theorem adaptive_thresholds_symmetric:
  assumes "i < length spread" and "rolling_std L 60 spread ! i = Fin r"
  shows "fst (adaptive_thresholds L spread 60) ! i = Fin (2 * r)
       \<and> snd (adaptive_thresholds L spread 60) ! i = fneg (Fin (2 * r))
       \<and> fst (adaptive_thresholds L spread 60) ! i
         = fneg (snd (adaptive_thresholds L spread 60) ! i)"
proof -
  have r: "0 \<le> r" by (rule rolling_std_Fin_nonneg [OF assms])
  have u: "fst (adaptive_thresholds L spread 60) ! i = Fin (2 * r)"
    by (simp only: nth_thresholds(1) [OF assms(1)] assms(2) double_nonneg [OF r])
  have l: "snd (adaptive_thresholds L spread 60) ! i = fneg (Fin (2 * r))"
    by (simp only: nth_thresholds(2) [OF assms(1)] assms(2) double_neg [OF r])
  show ?thesis by (simp only: u l fneg_fneg simp_thms)
qed

section \<open>Signals\<close>

lemma thresholds_exclusive:
  assumes "is_std v"
  shows "\<not> (flt z (fmul (fneg v) (Fin 2)) \<and> fgt z (fmul v (Fin 2)))"
proof -
  consider "v = NaN" | "v = PInf" | "v = NZero" | r where "0 \<le> r" "v = Fin r"
    using assms by (auto simp: is_std_def)
  then show ?thesis
  proof cases
    case 1
    then show ?thesis by simp
  next
    case 2
    then show ?thesis
      by (simp add: fmul_def is_inf_def is_zero_def inf_s_def fgt_def flt_def)
  next
    case 3
    then show ?thesis
      by (cases z) (simp_all add: fmul_def is_inf_def fin_s_def zero_s_def fgt_def flt_def)
  next
    case 4
    then show ?thesis
      by (cases z; cases "r = 0")
         (simp_all add: double_nonneg fmul_def is_inf_def fin_s_def zero_s_def fgt_def flt_def)
  qed
qed

lemma signals_disjoint:
  assumes up: "up = fst (adaptive_thresholds L spread w)"
      and lo: "lo = snd (adaptive_thresholds L spread w)"
  shows "fst ` set (select z (series_op flt False z lo))
       \<inter> fst ` set (select z (series_op fgt False z up)) = {}"
proof (rule ccontr)
  assume "\<not> ?thesis"
  then obtain i v v' where b: "(i, v) \<in> set (select z (series_op flt False z lo))"
    and s: "(i, v') \<in> set (select z (series_op fgt False z up))"
    by fastforce
  from b have b1: "i < length (series_op flt False z lo)" "series_op flt False z lo ! i"
    by (simp_all add: in_select)
  from s have s1: "i < length (series_op fgt False z up)" "series_op fgt False z up ! i"
    by (simp_all add: in_select)
  from series_op_holds [OF b1] have bl: "i < length lo" "flt (z ! i) (lo ! i)" by simp_all
  from series_op_holds [OF s1] have su: "i < length up" "fgt (z ! i) (up ! i)" by simp_all
  from bl(1) have i: "i < length spread" by (simp add: lo)
  from bl(2) su(2) i
  have "flt (z ! i) (fmul (fneg (rolling_std L w spread ! i)) (Fin 2))
      \<and> fgt (z ! i) (fmul (rolling_std L w spread ! i) (Fin 2))"
    by (simp add: lo up nth_thresholds)
  with thresholds_exclusive [OF rolling_std_is_std [OF i]] show False by blast
qed

text \<open>
  Claim C8. In every run that reaches the chart, no index is both a buy signal (z-score
  below the lower threshold) and a sell signal (z-score above the upper threshold). This
  holds for every library.
\<close>

theorem main_signals_disjoint:
  assumes "main L connect_error bars1 bars2 = Plotted out zscore spread buy_signals sell_signals"
  shows "fst ` set buy_signals \<inter> fst ` set sell_signals = {}"
proof -
  from assms have
    "buy_signals = select zscore (series_op flt False zscore (snd (adaptive_thresholds L spread 60)))"
    "sell_signals = select zscore (series_op fgt False zscore (fst (adaptive_thresholds L spread 60)))"
    by (auto simp: main_def Let_def split: option.splits prod.splits if_splits sum.splits)
  then show ?thesis
    using signals_disjoint [OF refl refl, of zscore L spread 60] by simp
qed

section \<open>Empty data\<close>

text \<open>
  Claim C2. When the feed returns no bars for either symbol, \<open>main\<close> prints a message for
  each empty symbol, prints that it failed to fetch data and returns: the run is neither an
  unhandled exception nor a chart, so no statistic has been computed.
\<close>

theorem main_empty_feed:
  assumes "bars1 = [] \<or> bars2 = []"
  shows "main L None bars1 bars2 =
           Exited ((if bars1 = [] then [''No data returned for YUM''] else [])
                 @ (if bars2 = [] then [''No data returned for MDT''] else [])
                 @ [''Failed to fetch data. Exiting.''])"
  using assms by (auto simp: main_def fetch_delayed_data_def)

section \<open>Half-life\<close>

lemma clamp_at_least_one:
  "py_max (Fin 1) q = PInf \<or> (\<exists>r. 1 \<le> r \<and> py_max (Fin 1) q = Fin r)"
  by (cases q) (simp_all add: py_max_def fgt_def flt_def)

text \<open>
  Whatever the library returns for the slope, a half-life that is returned is at least 1:
  it is a number that \<open>int\<close> truncates to an integer of at least 1, or it is the
  positive infinity, on which \<open>int\<close> raises OverflowError.
\<close>

lemma half_life_at_least_one:
  assumes "calculate_half_life L spread = Inr v"
  shows "(v = PInf \<and> py_int v = Inl OverflowError)
       \<or> (\<exists>r. v = Fin r \<and> 1 \<le> r \<and> py_int v = Inr \<lfloor>r\<rfloor> \<and> 1 \<le> \<lfloor>r\<rfloor>)"
proof -
  from assms obtain q where v: "v = py_max (Fin 1) q"
    by (auto simp: calculate_half_life_def Let_def split: sum.splits)
  from clamp_at_least_one [of q] show ?thesis
  proof
    assume "py_max (Fin 1) q = PInf"
    then show ?thesis by (simp add: v)
  next
    assume "\<exists>r. 1 \<le> r \<and> py_max (Fin 1) q = Fin r"
    then obtain r where r: "1 \<le> r" "v = Fin r" unfolding v by blast
    then have "1 \<le> \<lfloor>r\<rfloor>" by linarith
    with r show ?thesis by simp
  qed
qed








section \<open>A constant series for X\<close>

lemma series_op_fsub_NaN:
  "length a = length b \<Longrightarrow> \<forall>v \<in> set b. v = NaN \<Longrightarrow>
   series_op fsub NaN a b = replicate (length a) NaN"
  by (induction a b rule: list_induct2) simp_all

lemma spread_of_NaN:
  assumes "length ys = length xs"
  shows "calculate_spread ys xs NaN = replicate (length ys) NaN"
  unfolding calculate_spread_def using assms
  by (intro series_op_fsub_NaN) auto

lemma dropna_replicate_NaN [simp]: "dropna (replicate n NaN) = []"
  by (simp add: dropna_def)

lemma half_life_of_NaN: "calculate_half_life L (replicate n NaN) = Inl TypeError"
proof -
  have s: "shift1 (replicate n NaN) = replicate n NaN"
    by (cases n) (simp_all add: shift1_def butlast_conv_take flip: replicate_Suc)
  have "diff (replicate n NaN) = replicate n NaN"
    unfolding diff_def s by (simp add: series_op_fsub_NaN)
  then show ?thesis
    by (simp add: calculate_half_life_def s np_polyfit_def)
qed

lemma hedge_ratio_NaN:
  assumes "length ys = length xs" and "cov_entries L ys xs = (c, v)"
    and "is_zero v" and "c = NaN \<or> is_zero c"
  shows "calculate_hedge_ratio L ys xs = Inr NaN"
  using assms by (auto simp: calculate_hedge_ratio_def fdiv_zero_zero)

text \<open>
  Claim C1, as amended. When the variance that numpy computes for the aligned \<open>X\<close> is
  zero and the covariance it computes is zero or \<open>NaN\<close>, as for a constant \<open>X\<close> whose mean
  float64 computes exactly, \<open>calculate_hedge_ratio\<close> returns the undefined value \<open>NaN\<close>
  and does not raise; \<open>main\<close> does not stop there: it computes the spread with that value,
  every entry of which is \<open>NaN\<close>, and the run ends in the half-life estimation, where
  \<^verbatim>\<open>np.polyfit\<close> raises TypeError on the empty series that \<open>dropna\<close> leaves. This
  holds for every library.
\<close>

theorem constant_x_run:
  assumes "bars1 \<noteq> []" and "bars2 \<noteq> []"
    and "asset_y = map (\<lambda>(t, y, x). y) (align bars1 bars2)"
    and "asset_x = map (\<lambda>(t, y, x). x) (align bars1 bars2)"
    and "cov_entries L asset_y asset_x = (c, v)"
    and "is_zero v" and "c = NaN \<or> is_zero c"
  shows "calculate_hedge_ratio L asset_y asset_x = Inr NaN
       \<and> calculate_spread asset_y asset_x NaN = replicate (length asset_y) NaN
       \<and> calculate_half_life L (calculate_spread asset_y asset_x NaN) = Inl TypeError
       \<and> main L None bars1 bars2 = Raised [] TypeError"
proof -
  have len: "length asset_y = length asset_x" by (simp add: assms(3,4))
  have h: "calculate_hedge_ratio L asset_y asset_x = Inr NaN"
    by (rule hedge_ratio_NaN [OF len assms(5,6,7)])
  have s: "calculate_spread asset_y asset_x NaN = replicate (length asset_y) NaN"
    by (rule spread_of_NaN [OF len])
  have l: "calculate_half_life L (calculate_spread asset_y asset_x NaN) = Inl TypeError"
    unfolding s by (rule half_life_of_NaN)
  have "main L None bars1 bars2 = Raised [] TypeError"
    using assms(1,2) h l
    by (simp add: main_def fetch_delayed_data_def Let_def flip: assms(3,4))
  with h s l show ?thesis by simp
qed

lemma ex_align_constant:
  "align [(1, Fin 1), (2, Fin 2), (3, Fin 4)] [(1, Fin 5), (2, Fin 5), (3, Fin 5)] =
     [(1, Fin 1, Fin 5), (2, Fin 2, Fin 5), (3, Fin 4, Fin 5)]"
  by (simp add: align_def List.map_filter_def)

lemma ex_cov_constant:
  "cov_entries exact [Fin 1, Fin 2, Fin 4] [Fin 5, Fin 5, Fin 5] = (Fin 0, Fin 0)"
  by (simp add: exact_def exact_cov_def co_dev_def sq_dev_def mean_def)

theorem constant_x_run_witness:
  "cov_entries exact [Fin 1, Fin 2, Fin 4] [Fin 5, Fin 5, Fin 5] = (Fin 0, Fin 0)
   \<and> calculate_hedge_ratio exact [Fin 1, Fin 2, Fin 4] [Fin 5, Fin 5, Fin 5] = Inr NaN
   \<and> calculate_spread [Fin 1, Fin 2, Fin 4] [Fin 5, Fin 5, Fin 5] NaN = [NaN, NaN, NaN]
   \<and> main exact None [(1, Fin 1), (2, Fin 2), (3, Fin 4)] [(1, Fin 5), (2, Fin 5), (3, Fin 5)] =
       Raised [] TypeError"
proof -
  let ?b1 = "[(1, Fin 1), (2, Fin 2), (3, Fin 4)] :: bar list"
  let ?b2 = "[(1, Fin 5), (2, Fin 5), (3, Fin 5)] :: bar list"
  have b: "?b1 \<noteq> []" "?b2 \<noteq> []" by simp_all
  have y: "[Fin 1, Fin 2, Fin 4] = map (\<lambda>(t, y, x). y) (align ?b1 ?b2)"
    by (simp only: ex_align_constant) simp
  have x: "[Fin 5, Fin 5, Fin 5] = map (\<lambda>(t, y, x). x) (align ?b1 ?b2)"
    by (simp only: ex_align_constant) simp
  have z: "is_zero (Fin 0)" "Fin 0 = NaN \<or> is_zero (Fin 0)" by (simp_all add: is_zero_def)
  from constant_x_run [OF b y x ex_cov_constant z] ex_cov_constant
  show ?thesis by (simp add: numeral_3_eq_3)
qed

text \<open>
  Claim C1 as first stated has the run abort at the hedge ratio, before the spread and the
  later statistics. With the constant series \<open>5, 5, 5\<close> for \<open>X\<close> the variance and the
  covariance are zero, the hedge ratio is returned, the spread is computed from it, and the
  exception that ends the run is the one of the half-life estimation.
\<close>

theorem constant_x_counterexample:
  "cov_entries exact [Fin 10, Fin (21 / 2), Fin 11] [Fin 5, Fin 5, Fin 5] = (Fin 0, Fin 0)
   \<and> calculate_hedge_ratio exact [Fin 10, Fin (21 / 2), Fin 11] [Fin 5, Fin 5, Fin 5] = Inr NaN
   \<and> calculate_spread [Fin 10, Fin (21 / 2), Fin 11] [Fin 5, Fin 5, Fin 5] NaN = [NaN, NaN, NaN]
   \<and> calculate_half_life exact [NaN, NaN, NaN] = Inl TypeError
   \<and> main exact None [(1, Fin 10), (2, Fin (21 / 2)), (3, Fin 11)]
       [(1, Fin 5), (2, Fin 5), (3, Fin 5)] = Raised [] TypeError"
proof -
  have a: "align [(1, Fin 10), (2, Fin (21 / 2)), (3, Fin 11)] [(1, Fin 5), (2, Fin 5), (3, Fin 5)]
           = [(1, Fin 10, Fin 5), (2, Fin (21 / 2), Fin 5), (3, Fin 11, Fin 5)]"
    by (simp add: align_def List.map_filter_def)
  have c: "cov_entries exact [Fin 10, Fin (21 / 2), Fin 11] [Fin 5, Fin 5, Fin 5] = (Fin 0, Fin 0)"
    by (simp add: exact_def exact_cov_def co_dev_def sq_dev_def mean_def)
  have h: "calculate_hedge_ratio exact [Fin 10, Fin (21 / 2), Fin 11] [Fin 5, Fin 5, Fin 5]
           = Inr NaN"
    by (simp add: calculate_hedge_ratio_def c fdiv_zero_zero is_zero_def)
  have s: "calculate_spread [Fin 10, Fin (21 / 2), Fin 11] [Fin 5, Fin 5, Fin 5] NaN
           = [NaN, NaN, NaN]"
    by (simp add: calculate_spread_def)
  have l: "calculate_half_life exact [NaN, NaN, NaN] = Inl TypeError"
    by (simp add: calculate_half_life_def shift1_def diff_def dropna_def np_polyfit_def)
  have "main exact None [(1, Fin 10), (2, Fin (21 / 2)), (3, Fin 11)]
          [(1, Fin 5), (2, Fin 5), (3, Fin 5)] = Raised [] TypeError"
    by (simp add: main_def fetch_delayed_data_def a [simplified] h s l)
  with c h s l show ?thesis by simp
qed

section \<open>Z-score\<close>

lemma length_calculate_zscore [simp]: "length (calculate_zscore L s w) = length s"
  by (simp add: calculate_zscore_def Let_def)

lemma nth_calculate_zscore:
  "i < length s \<Longrightarrow>
   calculate_zscore L s w ! i =
     fdiv (fsub (s ! i) (rolling_mean L w s ! i)) (rolling_std L w s ! i)"
  by (simp add: calculate_zscore_def Let_def nth_series_op)

lemma window_at_length:
  assumes "w \<le> Suc i" and "i < length s"
  shows "length (window_at w i s) = w"
  using assms by (simp add: window_at_def)

lemma window_at_last:
  assumes "1 \<le> w" and "w \<le> Suc i" and "i < length s"
  shows "s ! i \<in> set (window_at w i s)"
proof -
  have "window_at w i s ! (w - 1) = s ! i"
    using assms by (simp add: window_at_def)
  moreover have "w - 1 < length (window_at w i s)"
    using window_at_length [OF assms(2,3)] assms(1) by simp
  ultimately show ?thesis by (metis nth_mem)
qed



lemma zscore_window_one:
  assumes "i < length s"
  shows "calculate_zscore L s 1 ! i = NaN"
  using assms by (simp add: nth_calculate_zscore nth_rolling_std)

lemma fsub_finite:
  assumes "is_fin x" and "is_fin y"
  shows "fval x = fval y \<Longrightarrow> is_zero (fsub x y)"
    and "fval x \<noteq> fval y \<Longrightarrow> fsub x y = Fin (fval x - fval y)"
  using assms
  by (cases x; cases y; simp add: fsub_def fadd_def is_inf_def is_zero_def zero_s_def)+









section \<open>A standard deviation of zero\<close>

lemma nan_not_selected:
  assumes "z ! i = NaN"
  shows "i \<notin> fst ` set (select z (series_op flt False z t))"
    and "i \<notin> fst ` set (select z (series_op fgt False z t))"
proof -
  show "i \<notin> fst ` set (select z (series_op flt False z t))"
  proof
    assume "i \<in> fst ` set (select z (series_op flt False z t))"
    then obtain v where "(i, v) \<in> set (select z (series_op flt False z t))" by auto
    then have "i < length (series_op flt False z t)" "series_op flt False z t ! i"
      by (simp_all add: in_select)
    from series_op_holds [OF this] assms show False by simp
  qed
  show "i \<notin> fst ` set (select z (series_op fgt False z t))"
  proof
    assume "i \<in> fst ` set (select z (series_op fgt False z t))"
    then obtain v where "(i, v) \<in> set (select z (series_op fgt False z t))" by auto
    then have "i < length (series_op fgt False z t)" "series_op fgt False z t ! i"
      by (simp_all add: in_select)
    from series_op_holds [OF this] assms show False by simp
  qed
qed

lemma zero_std_full_window:
  assumes "i < length s" and "is_zero (rolling_std L w s ! i)"
  shows "2 \<le> w" and "w \<le> Suc i" and "list_all is_fin (window_at w i s)"
  using assms by (auto simp: nth_rolling_std is_zero_def split: if_splits)

lemma zero_std_spread_finite:
  assumes "i < length s" and "is_zero (rolling_std L w s ! i)"
  shows "is_fin (s ! i)"
proof -
  note f = zero_std_full_window [OF assms]
  from f(1) have "1 \<le> w" by simp
  from window_at_last [OF this f(2) assms(1)] f(3) show ?thesis
    by (auto simp: list_all_iff)
qed

lemma fdiv_by_zero:
  assumes "is_zero d"
  shows "is_zero n \<Longrightarrow> fdiv n d = NaN"
    and "n = Fin a \<Longrightarrow> a \<noteq> 0 \<Longrightarrow> is_inf (fdiv n d)"
  using assms by (auto simp: fdiv_def is_inf_def is_zero_def inf_s_def)

lemma zero_not_signal:
  assumes "is_std v" and "is_zero z"
  shows "\<not> flt z (fmul (fneg v) (Fin 2))" and "\<not> fgt z (fmul v (Fin 2))"
proof -
  consider "v = NaN" | "v = PInf" | "v = NZero" | r where "0 \<le> r" "v = Fin r"
    using assms(1) by (auto simp: is_std_def)
  then have "\<not> flt z (fmul (fneg v) (Fin 2)) \<and> \<not> fgt z (fmul v (Fin 2))"
  proof cases
    case 1
    then show ?thesis by simp
  next
    case 2
    with assms(2) show ?thesis
      by (auto simp: fmul_def is_inf_def is_zero_def inf_s_def fgt_def flt_def)
  next
    case 3
    with assms(2) show ?thesis
      by (auto simp: fmul_def is_inf_def is_zero_def fin_s_def zero_s_def fgt_def flt_def)
  next
    case 4
    with assms(2) show ?thesis
      by (cases "r = 0")
         (auto simp: fmul_def is_inf_def is_zero_def fin_s_def zero_s_def fgt_def flt_def)
  qed
  then show "\<not> flt z (fmul (fneg v) (Fin 2))" and "\<not> fgt z (fmul v (Fin 2))" by simp_all
qed

lemma fdiv_zero_by_std:
  assumes "is_std v"
  shows "fdiv (Fin 0) v = NaN \<or> is_zero (fdiv (Fin 0) v)"
  using assms
  by (auto simp: is_std_def fdiv_def is_inf_def is_zero_def fin_s_def zero_s_def)

lemma window_at_replicate:
  assumes "w \<le> Suc i" "i < n"
  shows "window_at w i (replicate n x) = replicate w x"
  using assms by (simp add: window_at_def min_def)

lemma zscore_of_constant:
  assumes "i < n"
    and "\<forall>i < n. 0 < w \<and> w \<le> Suc i \<longrightarrow> roll_mean L w (replicate n (Fin c)) i = Fin c"
  shows "calculate_zscore L (replicate n (Fin c)) w ! i = NaN
       \<or> is_zero (calculate_zscore L (replicate n (Fin c)) w ! i)"
proof -
  let ?s = "replicate n (Fin c)"
  from assms(1) have i: "i < length ?s" by simp
  show ?thesis
  proof (cases "w = 0 \<or> Suc i < w")
    case True
    with i have "rolling_mean L w ?s ! i = NaN" by (simp add: nth_rolling_mean)
    then show ?thesis by (simp add: nth_calculate_zscore [OF i])
  next
    case False
    then have "window_at w i ?s = replicate w (Fin c)"
      using assms(1) by (simp add: window_at_replicate)
    moreover from False assms have "roll_mean L w ?s i = Fin c" by simp
    ultimately have m: "rolling_mean L w ?s ! i = Fin c"
      using False i by (simp add: nth_rolling_mean list_all_iff)
    from i have "?s ! i = Fin c" by simp
    with m have "calculate_zscore L ?s w ! i = fdiv (Fin 0) (rolling_std L w ?s ! i)"
      by (simp add: nth_calculate_zscore [OF i])
    with fdiv_zero_by_std [OF rolling_std_is_std [OF i, of L w]] show ?thesis by simp
  qed
qed

lemma no_signal_where_zero_or_nan:
  assumes "\<forall>i < length z. z ! i = NaN \<or> is_zero (z ! i)"
  shows "select z (series_op flt False z (snd (adaptive_thresholds L spread w))) = []"
    and "select z (series_op fgt False z (fst (adaptive_thresholds L spread w))) = []"
proof -
  let ?lo = "snd (adaptive_thresholds L spread w)"
  let ?up = "fst (adaptive_thresholds L spread w)"
  show "select z (series_op flt False z ?lo) = []"
  proof (cases "select z (series_op flt False z ?lo)")
    case (Cons p ps)
    obtain i v where p: "p = (i, v)" by (cases p)
    with Cons have m: "(i, v) \<in> set (select z (series_op flt False z ?lo))" by simp
    then have "i < length (series_op flt False z ?lo)" "series_op flt False z ?lo ! i"
      by (simp_all add: in_select)
    from series_op_holds [OF this]
    have i: "i < length z" "i < length spread" and f: "flt (z ! i) (?lo ! i)" by simp_all
    from assms i(1) have "z ! i = NaN \<or> is_zero (z ! i)" by simp
    then show ?thesis
    proof
      assume "z ! i = NaN"
      with f show ?thesis by simp
    next
      assume "is_zero (z ! i)"
      from zero_not_signal(1) [OF rolling_std_is_std [OF i(2), of L w] this] f
      show ?thesis by (simp add: nth_thresholds [OF i(2)])
    qed
  qed simp
  show "select z (series_op fgt False z ?up) = []"
  proof (cases "select z (series_op fgt False z ?up)")
    case (Cons p ps)
    obtain i v where p: "p = (i, v)" by (cases p)
    with Cons have m: "(i, v) \<in> set (select z (series_op fgt False z ?up))" by simp
    then have "i < length (series_op fgt False z ?up)" "series_op fgt False z ?up ! i"
      by (simp_all add: in_select)
    from series_op_holds [OF this]
    have i: "i < length z" "i < length spread" and f: "fgt (z ! i) (?up ! i)" by simp_all
    from assms i(1) have "z ! i = NaN \<or> is_zero (z ! i)" by simp
    then show ?thesis
    proof
      assume "z ! i = NaN"
      with f show ?thesis by simp
    next
      assume "is_zero (z ! i)"
      from zero_not_signal(2) [OF rolling_std_is_std [OF i(2), of L w] this] f
      show ?thesis by (simp add: nth_thresholds [OF i(2)])
    qed
  qed simp
qed

text \<open>
  Claim C4, as amended. At every index \<open>i\<close> at which the trailing-window standard
  deviation of the spread is zero: where the rolling mean is a number equal to
  \<open>Spread[i]\<close>, the z-score is \<open>NaN\<close> and \<open>i\<close> is the index of no buy signal and of no
  sell signal; where the rolling mean is a number other than \<open>Spread[i]\<close>, the z-score is
  an infinity. A spread whose entries are all equal has no buy signal and no sell signal,
  for every window, when the library reports that common value as the rolling mean of
  every full window. This holds for every library.
\<close>

theorem zero_std_no_signal:
  assumes "i < length spread" and "is_zero (rolling_std L window spread ! i)"
  shows "(is_fin (rolling_mean L window spread ! i)
            \<and> fval (spread ! i) = fval (rolling_mean L window spread ! i)
          \<longrightarrow> calculate_zscore L spread window ! i = NaN
            \<and> i \<notin> fst ` set (select (calculate_zscore L spread window)
                               (series_op flt False (calculate_zscore L spread window)
                                  (snd (adaptive_thresholds L spread 60))))
            \<and> i \<notin> fst ` set (select (calculate_zscore L spread window)
                               (series_op fgt False (calculate_zscore L spread window)
                                  (fst (adaptive_thresholds L spread 60)))))
       \<and> (is_fin (rolling_mean L window spread ! i)
            \<and> fval (spread ! i) \<noteq> fval (rolling_mean L window spread ! i)
          \<longrightarrow> is_inf (calculate_zscore L spread window ! i))
       \<and> ((\<forall>j < n. 0 < w \<and> w \<le> Suc j \<longrightarrow> roll_mean L w (replicate n (Fin c)) j = Fin c)
          \<longrightarrow> select (calculate_zscore L (replicate n (Fin c)) w)
                 (series_op flt False (calculate_zscore L (replicate n (Fin c)) w)
                    (snd (adaptive_thresholds L (replicate n (Fin c)) 60))) = []
            \<and> select (calculate_zscore L (replicate n (Fin c)) w)
                 (series_op fgt False (calculate_zscore L (replicate n (Fin c)) w)
                    (fst (adaptive_thresholds L (replicate n (Fin c)) 60))) = [])"
proof (intro conjI impI)
  let ?m = "rolling_mean L window spread ! i"
  let ?z = "calculate_zscore L spread window"
  note s = zero_std_spread_finite [OF assms]
  {
    assume e: "is_fin ?m \<and> fval (spread ! i) = fval ?m"
    then have "is_zero (fsub (spread ! i) ?m)" using s by (simp add: fsub_finite(1))
    from fdiv_by_zero(1) [OF assms(2) this] show z: "?z ! i = NaN"
      by (simp add: nth_calculate_zscore [OF assms(1)])
    from nan_not_selected(1) [OF z]
    show "i \<notin> fst ` set (select ?z (series_op flt False ?z (snd (adaptive_thresholds L spread 60))))" .
    from nan_not_selected(2) [OF z]
    show "i \<notin> fst ` set (select ?z (series_op fgt False ?z (fst (adaptive_thresholds L spread 60))))" .
  }
  {
    assume d: "is_fin ?m \<and> fval (spread ! i) \<noteq> fval ?m"
    then have "fsub (spread ! i) ?m = Fin (fval (spread ! i) - fval ?m)"
      using s by (simp add: fsub_finite(2))
    from fdiv_by_zero(2) [OF assms(2) this] d show "is_inf (?z ! i)"
      by (simp add: nth_calculate_zscore [OF assms(1)])
  }
  {
    assume k: "\<forall>j < n. 0 < w \<and> w \<le> Suc j \<longrightarrow> roll_mean L w (replicate n (Fin c)) j = Fin c"
    let ?c = "calculate_zscore L (replicate n (Fin c)) w"
    have all: "\<forall>i < length ?c. ?c ! i = NaN \<or> is_zero (?c ! i)"
      using zscore_of_constant [OF _ k] by simp
    from no_signal_where_zero_or_nan(1) [OF all]
    show "select ?c (series_op flt False ?c (snd (adaptive_thresholds L (replicate n (Fin c)) 60))) = []" .
    from no_signal_where_zero_or_nan(2) [OF all]
    show "select ?c (series_op fgt False ?c (fst (adaptive_thresholds L (replicate n (Fin c)) 60))) = []" .
  }
qed

lemma mean_replicate: "0 < n \<Longrightarrow> mean (replicate n c) = c"
  by (simp add: mean_def sum_list_replicate)

lemma sq_dev_replicate: "0 < n \<Longrightarrow> sq_dev (replicate n c) = 0"
  by (simp add: sq_dev_def mean_replicate sum_list_replicate map_replicate_const)

lemma exact_mean_replicate:
  assumes "0 < w" "w \<le> Suc i" "i < n"
  shows "roll_mean exact w (replicate n (Fin c)) i = Fin c"
  using assms by (simp add: exact_def exact_mean_def window_at_replicate mean_replicate)

lemma exact_std_replicate:
  assumes "2 \<le> w" "w \<le> Suc i" "i < n"
  shows "rolling_std exact w (replicate n (Fin c)) ! i = Fin 0"
  using assms
  by (simp add: nth_rolling_std exact_def exact_var_def window_at_replicate sq_dev_replicate
      list_all_iff)

lemma ex_underflow_window:
  "window_at 2 (Suc 0) [Fin 0, Fin t, Fin 0] = [Fin 0, Fin t]"
  by (simp add: window_at_def)

lemma ex_underflow_var:
  assumes "(t / 2)\<^sup>2 < 1 / 2 ^ 1075"
  shows "underflow_var 2 [Fin 0, Fin t, Fin 0] (Suc 0) = Fin 0"
proof -
  have m: "mean [0, t] = t / 2" by (simp add: mean_def)
  have "(0 - t / 2)\<^sup>2 = (t / 2)\<^sup>2" "(t - t / 2)\<^sup>2 = (t / 2)\<^sup>2"
    by (simp_all add: power2_eq_square)
  with assms have "flush ((0 - t / 2)\<^sup>2) = 0" "flush ((t - t / 2)\<^sup>2) = 0"
    by (simp_all add: flush_def)
  then show ?thesis
    by (simp add: underflow_var_def ex_underflow_window m Let_def)
qed

lemma ex_underflow_std:
  assumes "(t / 2)\<^sup>2 < 1 / 2 ^ 1075"
  shows "rolling_std underflowing 2 [Fin 0, Fin t, Fin 0] ! Suc 0 = Fin 0"
  by (simp add: nth_rolling_std ex_underflow_window underflowing_def exact_def
      ex_underflow_var [OF assms])

lemma ex_underflow_mean:
  "rolling_mean underflowing 2 [Fin 0, Fin t, Fin 0] ! Suc 0 = Fin (t / 2)"
  by (simp add: nth_rolling_mean ex_underflow_window underflowing_def exact_def exact_mean_def
      mean_def)

lemma ex_small: "((1::real) / 10 ^ 200 / 2)\<^sup>2 < 1 / 2 ^ 1075"
  by (simp add: power2_eq_square)

theorem zero_std_no_signal_witness:
  "calculate_zscore exact (replicate 3 (Fin 5)) 2 ! 1 = NaN
   \<and> select (calculate_zscore exact (replicate 3 (Fin 5)) 2)
       (series_op flt False (calculate_zscore exact (replicate 3 (Fin 5)) 2)
          (snd (adaptive_thresholds exact (replicate 3 (Fin 5)) 60))) = []
   \<and> select (calculate_zscore exact (replicate 3 (Fin 5)) 2)
       (series_op fgt False (calculate_zscore exact (replicate 3 (Fin 5)) 2)
          (fst (adaptive_thresholds exact (replicate 3 (Fin 5)) 60))) = []
   \<and> is_inf (calculate_zscore underflowing [Fin 0, Fin (1 / 10 ^ 200), Fin 0] 2 ! 1)"
proof -
  let ?s = "replicate 3 (Fin 5)"
  let ?u = "[Fin 0, Fin (1 / 10 ^ 200), Fin 0]"
  have i: "1 < length ?s" by simp
  have sd: "is_zero (rolling_std exact 2 ?s ! 1)"
    by (simp add: exact_std_replicate is_zero_def)
  have m: "rolling_mean exact 2 ?s ! 1 = Fin 5"
    by (simp add: nth_rolling_mean window_at_replicate exact_mean_replicate list_all_iff)
  have k: "\<forall>j < 3. 0 < (2::nat) \<and> 2 \<le> Suc j \<longrightarrow> roll_mean exact 2 (replicate 3 (Fin 5)) j = Fin 5"
    by (simp add: exact_mean_replicate)
  have iu: "1 < length ?u" by simp
  have sdu: "is_zero (rolling_std underflowing 2 ?u ! 1)"
    using ex_underflow_std [OF ex_small] by (simp add: is_zero_def)
  from zero_std_no_signal [OF i sd, of 3 2 5] m k
  have a: "calculate_zscore exact ?s 2 ! 1 = NaN
     \<and> select (calculate_zscore exact ?s 2)
         (series_op flt False (calculate_zscore exact ?s 2)
            (snd (adaptive_thresholds exact ?s 60))) = []
     \<and> select (calculate_zscore exact ?s 2)
         (series_op fgt False (calculate_zscore exact ?s 2)
            (fst (adaptive_thresholds exact ?s 60))) = []"
    by simp
  from zero_std_no_signal [OF iu sdu, of 0 2 0]
  have b: "is_inf (calculate_zscore underflowing ?u 2 ! 1)"
    using ex_underflow_mean [of "1 / 10 ^ 200"] by simp
  from a b show ?thesis by simp
qed

text \<open>
  Claim C4 as first stated makes the z-score \<open>NaN\<close> wherever the rolling standard
  deviation is 0. On the spread \<open>[0, 1e-200, 0]\<close> with a window of 2 the squared
  deviations underflow, so the standard deviation of the window ending at index 1 is 0
  while the spread there differs from the rolling mean: the z-score is an infinity.
\<close>

theorem zero_std_infinite_zscore_counterexample:
  "rolling_std underflowing 2 [Fin 0, Fin (1 / 10 ^ 200), Fin 0] ! 1 = Fin 0
   \<and> calculate_zscore underflowing [Fin 0, Fin (1 / 10 ^ 200), Fin 0] 2 ! 1 = PInf"
  using ex_underflow_std [OF ex_small] ex_underflow_mean [of "1 / 10 ^ 200"]
  by (simp add: nth_calculate_zscore fdiv_def is_inf_def is_zero_def inf_s_def)

theorem adaptive_thresholds_symmetric_witness:
  "fst (adaptive_thresholds exact (replicate 60 (Fin 1)) 60) ! 59 = Fin 0
   \<and> snd (adaptive_thresholds exact (replicate 60 (Fin 1)) 60) ! 59 = NZero"
proof -
  have "rolling_std exact 60 (replicate 60 (Fin 1)) ! 59 = Fin 0"
    by (rule exact_std_replicate) simp_all
  from adaptive_thresholds_symmetric [OF _ this] show ?thesis by simp
qed

theorem main_empty_feed_witness:
  "main exact None [] [(1, Fin 5)] =
     Exited [''No data returned for YUM'', ''Failed to fetch data. Exiting.'']"
  using main_empty_feed [of "[]" "[(1, Fin 5)]" exact] by simp

lemma ex_align_three:
  "align [(1, Fin 1), (2, Fin 2), (3, Fin 6)] [(1, Fin 1), (2, Fin 2), (3, Fin 3)] =
     [(1, Fin 1, Fin 1), (2, Fin 2, Fin 2), (3, Fin 6, Fin 3)]"
  by (simp add: align_def List.map_filter_def)

lemma ex_hedge:
  "calculate_hedge_ratio exact [Fin 1, Fin 2, Fin 6] [Fin 1, Fin 2, Fin 3] = Inr (Fin (5 / 2))"
  by (simp add: calculate_hedge_ratio_def exact_def exact_cov_def co_dev_def sq_dev_def
      mean_def fdiv_Fin fin_s_def power2_eq_square)

lemma ex_spread:
  "calculate_spread [Fin 1, Fin 2, Fin 6] [Fin 1, Fin 2, Fin 3] (Fin (5 / 2)) =
     [Fin (- (3 / 2)), Fin (- 3), Fin (- (3 / 2))]"
  by (simp add: calculate_spread_def fmul_Fin fin_s_def)

lemma ex_half_life:
  "calculate_half_life exact [Fin (- (3 / 2)), Fin (- 3), Fin (- (3 / 2))] = Inr (Fin 1)"
proof -
  have lag: "dropna (shift1 [Fin (- (3 / 2)), Fin (- 3), Fin (- (3 / 2))])
               = [Fin (- (3 / 2)), Fin (- 3)]"
    by (simp add: shift1_def dropna_def)
  have delta: "dropna (diff [Fin (- (3 / 2)), Fin (- 3), Fin (- (3 / 2))])
               = [Fin (- (3 / 2)), Fin (3 / 2)]"
    by (simp add: shift1_def diff_def dropna_def)
  have fit: "np_polyfit exact [Fin (- (3 / 2)), Fin (- 3)] [Fin (- (3 / 2)), Fin (3 / 2)]
               = Inr (Fin (- 2))"
    by (simp add: np_polyfit_def exact_def exact_slope_def sq_dev_def co_dev_def mean_def
        power2_eq_square)
  have hl: "fdiv (fneg (Fin (ln 2))) (Fin (- 2)) = Fin (ln 2 / 2)"
    by (simp add: fdiv_Fin fin_s_def)
  have "py_max (Fin 1) (Fin (ln 2 / 2)) = Fin 1"
    using ln_2_less_1 by (simp add: py_max_def fgt_def flt_def)
  with lag delta fit hl show ?thesis
    by (simp add: calculate_half_life_def)
qed

lemma ex_zscore:
  "calculate_zscore exact [Fin (- (3 / 2)), Fin (- 3), Fin (- (3 / 2))] (Suc 0) = [NaN, NaN, NaN]"
proof -
  let ?s = "[Fin (- (3 / 2)), Fin (- 3), Fin (- (3 / 2))]"
  have "length (calculate_zscore exact ?s 1) = 3" by simp
  moreover have "\<forall>i < 3. calculate_zscore exact ?s 1 ! i = NaN"
  proof (intro allI impI)
    fix i :: nat assume "i < 3"
    then have "i < length ?s" by simp
    then show "calculate_zscore exact ?s 1 ! i = NaN" by (rule zscore_window_one)
  qed
  ultimately have "calculate_zscore exact ?s 1 = replicate 3 NaN"
    by (intro nth_equalityI) simp_all
  then show ?thesis by (simp add: numeral_3_eq_3)
qed

lemma ex_thresholds:
  "adaptive_thresholds exact [Fin (- (3 / 2)), Fin (- 3), Fin (- (3 / 2))] 60 =
     ([NaN, NaN, NaN], [NaN, NaN, NaN])"
  by (simp add: adaptive_thresholds_def rolling_std_def rolling_var_def rolling_def upt_rec
      Let_def)

lemma run_example:
  "main exact None [(1, Fin 1), (2, Fin 2), (3, Fin 6)] [(1, Fin 1), (2, Fin 2), (3, Fin 3)] =
     Plotted [] [NaN, NaN, NaN] [Fin (- (3 / 2)), Fin (- 3), Fin (- (3 / 2))] [] []"
  by (simp add: main_def fetch_delayed_data_def ex_align_three [simplified] ex_hedge ex_spread
      ex_half_life ex_zscore ex_thresholds select_def)

theorem main_signals_disjoint_witness:
  "main exact None [(1, Fin 1), (2, Fin 2), (3, Fin 6)] [(1, Fin 1), (2, Fin 2), (3, Fin 3)] =
     Plotted [] [NaN, NaN, NaN] [Fin (- (3 / 2)), Fin (- 3), Fin (- (3 / 2))] [] []
   \<and> fst ` set ([] :: (nat \<times> fl) list) \<inter> fst ` set ([] :: (nat \<times> fl) list) = {}"
  using main_signals_disjoint [OF run_example] run_example by simp

end
